theory Spec2Isabelle
  imports Main "HOL-Library.Sublist" "HOL-Library.Monad_Syntax"
begin

section \<open>Data model of the PomodoroTimer component\<close>

text \<open>
  The component keeps its state in React \<open>useState\<close> hooks. The model collects the hooks in
  one record and turns every handler into a function from state to state. The hooks
  \<open>showSettings\<close> and \<open>showStats\<close> only select what is rendered and are left out.

  A JavaScript \<open>number\<close> that the component computes with is an integer or \<open>NaN\<close>
  (\<open>parseInt\<close> produces nothing else); integers are modelled as mathematical integers, so
  the model is exact for values of magnitude below \<open>2^53\<close>. The identifier of a task is a
  value of \<open>Date.now()\<close> and its pomodoros are counted up from 0, so both are integers,
  and so is the counter of completed pomodoros.
  A string is a list of code units; every \<open>char\<close> stands for one code unit below \<open>0x100\<close>.

  The fields \<open>id\<close> and \<open>text\<close> of the interface \<open>Task\<close> are \<open>id_task\<close> and \<open>text_task\<close> here.
\<close>

datatype TimerType = Work | ShortBreak | LongBreak

datatype number = Num int | NaN

record Task =
  id_task :: int
  text_task :: string
  completed :: bool
  pomodoros :: int

record TimerSettings =
  work :: number
  shortBreak :: number
  longBreak :: number

record Time =
  minutes :: number
  seconds :: number

text \<open>
  The trace \<open>log\<close> is not a hook of the component: it records the observable effects of
  \<open>handleTimerComplete\<close> in order, one \<open>TimerComplete\<close> for every call and one
  \<open>AudioPlay\<close> for every call of \<open>audioRef.current.play()\<close>.
  \<open>audioRef\<close> holds whether \<open>audioRef.current\<close> is non-null (the audio element is mounted).
\<close>

datatype event = TimerComplete TimerType | AudioPlay

record state =
  time :: Time
  isActive :: bool
  timerType :: TimerType
  tasks :: "Task list"
  newTask :: string
  completedPomodoros :: int
  timerSettings :: TimerSettings
  isMuted :: bool
  audioRef :: bool
  log :: "event list"

definition defaultSettings :: TimerSettings where
  "defaultSettings = \<lparr>work = Num 25, shortBreak = Num 5, longBreak = Num 15\<rparr>"

definition initialState :: state where
  "initialState =
     \<lparr>time = \<lparr>minutes = Num 25, seconds = Num 0\<rparr>,
      isActive = False,
      timerType = Work,
      tasks = [],
      newTask = [],
      completedPomodoros = 0,
      timerSettings = defaultSettings,
      isMuted = False,
      audioRef = True,
      log = []\<rparr>"

section \<open>Session clock\<close>

text \<open>\<open>timerSettings[type]\<close>\<close>

fun settingsGet :: "TimerSettings \<Rightarrow> TimerType \<Rightarrow> number" where
  "settingsGet ts Work = work ts"
| "settingsGet ts ShortBreak = shortBreak ts"
| "settingsGet ts LongBreak = longBreak ts"

text \<open>\<open>n - 1\<close> on a JavaScript number: \<open>NaN - 1\<close> is \<open>NaN\<close>.\<close>

fun sub1 :: "number \<Rightarrow> number" where
  "sub1 (Num n) = Num (n - 1)"
| "sub1 NaN = NaN"

definition switchTimer :: "TimerType \<Rightarrow> state \<Rightarrow> state" where
  "switchTimer type s =
     s\<lparr>timerType := type,
       time := \<lparr>minutes = settingsGet (timerSettings s) type, seconds = Num 0\<rparr>\<rparr>"

definition handleTimerComplete :: "state \<Rightarrow> state" where
  "handleTimerComplete s =
     (let s0 = s\<lparr>log := log s @ [TimerComplete (timerType s)]\<rparr>;
          s1 = s0\<lparr>isActive := False\<rparr>;
          s2 = (if \<not> isMuted s \<and> audioRef s then s1\<lparr>log := log s1 @ [AudioPlay]\<rparr> else s1);
          s3 = (if timerType s = Work
                then s2\<lparr>completedPomodoros := completedPomodoros s2 + 1\<rparr> else s2)
      in switchTimer (if timerType s = Work then ShortBreak else Work) s3)"

definition toggleTimer :: "state \<Rightarrow> state" where
  "toggleTimer s = s\<lparr>isActive := \<not> isActive s\<rparr>"

definition resetTimer :: "state \<Rightarrow> state" where
  "resetTimer s =
     s\<lparr>isActive := False,
       time := \<lparr>minutes = settingsGet (timerSettings s) (timerType s), seconds = Num 0\<rparr>\<rparr>"

text \<open>
  The callback of \<open>setInterval\<close>, which calls \<open>setTime\<close> with a state updater. In the branch
  that calls \<open>handleTimerComplete\<close> the updater clears the interval and returns \<open>prevTime\<close>
  itself; the setters that \<open>handleTimerComplete\<close> calls from inside the updater are applied
  after it, so the state after that branch is the one \<open>handleTimerComplete\<close> leaves, with
  the time that \<open>switchTimer\<close> sets.
\<close>

definition intervalCallback :: "state \<Rightarrow> state" where
  "intervalCallback s =
     (if seconds (time s) = Num 0 then
        (if minutes (time s) = Num 0 then handleTimerComplete s
         else s\<lparr>time := \<lparr>minutes = sub1 (minutes (time s)), seconds = Num 59\<rparr>\<rparr>)
      else s\<lparr>time := (time s)\<lparr>seconds := sub1 (seconds (time s))\<rparr>\<rparr>)"

text \<open>
  One elapsed second. The effect installs the interval only while \<open>isActive\<close> holds, and
  reinstalls it after every change of \<open>time\<close>, so a second that elapses runs the callback
  once when the timer is active and does nothing otherwise.
\<close>

definition tick :: "state \<Rightarrow> state" where
  "tick s = (if isActive s then intervalCallback s else s)"

section \<open>Strings and numbers of the platform\<close>

text \<open>
  The white space that \<open>String.prototype.trim\<close> and \<open>parseInt\<close> strip, among the code
  units below \<open>0x100\<close>: tab, line feed, vertical tab, form feed, carriage return, space
  and the no-break space.
\<close>

definition isWhiteSpace :: "char \<Rightarrow> bool" where
  "isWhiteSpace c = ((of_char c :: nat) \<in> {9, 10, 11, 12, 13, 32, 160})"

definition trim :: "string \<Rightarrow> string" where
  "trim s = rev (dropWhile isWhiteSpace (rev (dropWhile isWhiteSpace s)))"

text \<open>The value of a digit or letter as a digit of a radix up to 16.\<close>

definition digitVal :: "char \<Rightarrow> nat option" where
  "digitVal c =
     (let n = (of_char c :: nat) in
      if 48 \<le> n \<and> n \<le> 57 then Some (n - 48)
      else if 97 \<le> n \<and> n \<le> 102 then Some (n - 87)
      else if 65 \<le> n \<and> n \<le> 70 then Some (n - 55)
      else None)"

definition isDigitIn :: "nat \<Rightarrow> char \<Rightarrow> bool" where
  "isDigitIn R c = (case digitVal c of Some d \<Rightarrow> d < R | None \<Rightarrow> False)"

definition digitsValue :: "nat \<Rightarrow> string \<Rightarrow> nat" where
  "digitsValue R Z = foldl (\<lambda>a c. case digitVal c of Some d \<Rightarrow> a * R + d | None \<Rightarrow> a) 0 Z"

text \<open>
  \<open>parseInt(string)\<close> with no radix: leading white space is skipped, a sign is read, the
  prefix \<open>0x\<close> or \<open>0X\<close> selects radix 16, and the longest run of digits is the value; with no
  digit the result is \<open>NaN\<close>.
\<close>

definition parseInt :: "string \<Rightarrow> number" where
  "parseInt inputString =
     (let S = dropWhile isWhiteSpace inputString;
          sign = (if take 1 S = ''-'' then - 1 else (1 :: int));
          S1 = (if take 1 S = ''-'' \<or> take 1 S = ''+'' then drop 1 S else S);
          hex = (take 2 S1 = ''0x'' \<or> take 2 S1 = ''0X'');
          R = (if hex then 16 else 10);
          S2 = (if hex then drop 2 S1 else S1);
          Z = takeWhile (isDigitIn R) S2
      in if Z = [] then NaN else Num (sign * int (digitsValue R Z)))"

section \<open>Settings\<close>

text \<open>\<open>{...timerSettings, [key]: v}\<close>\<close>

fun settingsSet :: "TimerSettings \<Rightarrow> TimerType \<Rightarrow> number \<Rightarrow> TimerSettings" where
  "settingsSet ts Work v = ts\<lparr>work := v\<rparr>"
| "settingsSet ts ShortBreak v = ts\<lparr>shortBreak := v\<rparr>"
| "settingsSet ts LongBreak v = ts\<lparr>longBreak := v\<rparr>"

text \<open>
  The \<open>onChange\<close> handler of the number input of the setting \<open>key\<close>; \<open>targetValue\<close> is
  \<open>e.target.value\<close>.
\<close>

definition onChangeSetting :: "TimerType \<Rightarrow> string \<Rightarrow> state \<Rightarrow> state" where
  "onChangeSetting key targetValue s =
     s\<lparr>timerSettings := settingsSet (timerSettings s) key (parseInt targetValue)\<rparr>"

text \<open>The property of the specification: every duration is a positive integer.\<close>

fun positive :: "number \<Rightarrow> bool" where
  "positive (Num n) = (0 < n)"
| "positive NaN = False"

definition allPositive :: "TimerSettings \<Rightarrow> bool" where
  "allPositive ts = (positive (work ts) \<and> positive (shortBreak ts) \<and> positive (longBreak ts))"

section \<open>Task list\<close>

text \<open>The \<open>onChange\<close> handler of the text input.\<close>

definition setNewTask :: "string \<Rightarrow> state \<Rightarrow> state" where
  "setNewTask v s = s\<lparr>newTask := v\<rparr>"

text \<open>\<open>now\<close> is the value of \<open>Date.now()\<close> at the call.\<close>

definition addTask :: "int \<Rightarrow> state \<Rightarrow> state" where
  "addTask now s =
     (if trim (newTask s) \<noteq> [] then
        s\<lparr>tasks := tasks s @
              [\<lparr>id_task = now, text_task = newTask s, completed = False, pomodoros = 0\<rparr>],
          newTask := []\<rparr>
      else s)"

definition toggleTaskCompletion :: "int \<Rightarrow> state \<Rightarrow> state" where
  "toggleTaskCompletion i s =
     s\<lparr>tasks := map (\<lambda>task. if id_task task = i
                              then task\<lparr>completed := \<not> completed task\<rparr> else task) (tasks s)\<rparr>"

definition incrementTaskPomodoros :: "int \<Rightarrow> state \<Rightarrow> state" where
  "incrementTaskPomodoros i s =
     s\<lparr>tasks := map (\<lambda>task. if id_task task = i
                              then task\<lparr>pomodoros := pomodoros task + 1\<rparr> else task) (tasks s)\<rparr>"

definition removeTask :: "int \<Rightarrow> state \<Rightarrow> state" where
  "removeTask i s = s\<lparr>tasks := filter (\<lambda>task. id_task task \<noteq> i) (tasks s)\<rparr>"

section \<open>Notions of the specification\<close>

text \<open>\<open>remainingSeconds\<close> of the specification: the time left, in seconds.\<close>

definition remainingSeconds :: "Time \<Rightarrow> number" where
  "remainingSeconds t =
     (case minutes t of
        Num m \<Rightarrow> (case seconds t of Num k \<Rightarrow> Num (m * 60 + k) | NaN \<Rightarrow> NaN)
      | NaN \<Rightarrow> NaN)"

text \<open>
  A run of sessions that all reach their end: for every kind of the list in turn, the
  kind is selected with \<open>switchTimer\<close> and the session ends with \<open>handleTimerComplete\<close>.
\<close>

fun completeSessions :: "TimerType list \<Rightarrow> state \<Rightarrow> state" where
  "completeSessions [] s = s"
| "completeSessions (k # ks) s = completeSessions ks (handleTimerComplete (switchTimer k s))"

section \<open>Persistence of the task list\<close>

text \<open>
  \<open>JSON.stringify\<close> and \<open>JSON.parse\<close> are functions of the platform. They are modelled
  on the texts that the component stores: \<open>JSON_stringify\<close> writes an array of tasks as
  \<open>JSON.stringify\<close> does, without white space, and \<open>JSON_parse\<close> reads the texts of that
  shape (an array of objects with the properties \<open>id\<close>, \<open>text\<close>, \<open>completed\<close> and
  \<open>pomodoros\<close>, in this order) and returns \<open>None\<close> on every other text.
\<close>

text \<open>The digit \<open>d\<close> of a radix up to 16 as a character, letters in lower case.\<close>

definition digitChar :: "nat \<Rightarrow> char" where
  "digitChar d = char_of (if d < 10 then 48 + d else 87 + d)"

text \<open>
  \<open>Number.prototype.toString\<close> on an integer (of magnitude below \<open>10^21\<close>): its decimal
  digits, after the sign.
\<close>

fun showNat :: "nat \<Rightarrow> string" where
  "showNat n = (if n < 10 then [digitChar n] else showNat (n div 10) @ [digitChar (n mod 10)])"

declare showNat.simps [simp del]

definition numberToString :: "int \<Rightarrow> string" where
  "numberToString i = (if i < 0 then CHR ''-'' # showNat (nat (- i)) else showNat (nat i))"

text \<open>
  \<open>QuoteJSONString\<close>: backspace, tab, line feed, form feed, carriage return, the double
  quote and the backslash have their short escapes, any other code unit below \<open>0x20\<close> is
  written as \<open>\u00XX\<close>, everything else stands for itself.
\<close>

definition quoteChar :: "char \<Rightarrow> string" where
  "quoteChar c =
     (let n = (of_char c :: nat) in
      if n = 8 then [CHR 0x5C, CHR ''b'']
      else if n = 9 then [CHR 0x5C, CHR ''t'']
      else if n = 10 then [CHR 0x5C, CHR ''n'']
      else if n = 12 then [CHR 0x5C, CHR ''f'']
      else if n = 13 then [CHR 0x5C, CHR ''r'']
      else if n = 34 then [CHR 0x5C, CHR 0x22]
      else if n = 92 then [CHR 0x5C, CHR 0x5C]
      else if n < 32 then
        [CHR 0x5C, CHR ''u'', CHR ''0'', CHR ''0'', digitChar (n div 16), digitChar (n mod 16)]
      else [c])"

definition quoteJSONString :: "string \<Rightarrow> string" where
  "quoteJSONString s = CHR 0x22 # concat (map quoteChar s) @ [CHR 0x22]"

text \<open>
  A task is written as an object with its four properties in the order in which
  \<open>addTask\<close> creates them; the spread in \<open>toggleTaskCompletion\<close> and
  \<open>incrementTaskPomodoros\<close> keeps that order.
\<close>

definition stringifyTask :: "Task \<Rightarrow> string" where
  "stringifyTask t =
     ''{'' @ quoteJSONString ''id'' @ '':'' @ numberToString (id_task t)
     @ '','' @ quoteJSONString ''text'' @ '':'' @ quoteJSONString (text_task t)
     @ '','' @ quoteJSONString ''completed'' @ '':'' @ (if completed t then ''true'' else ''false'')
     @ '','' @ quoteJSONString ''pomodoros'' @ '':'' @ numberToString (pomodoros t)
     @ ''}''"

fun joinComma :: "string list \<Rightarrow> string" where
  "joinComma [] = []"
| "joinComma [x] = x"
| "joinComma (x # y # ys) = x @ '','' @ joinComma (y # ys)"

definition JSON_stringify :: "Task list \<Rightarrow> string" where
  "JSON_stringify ts = ''['' @ joinComma (map stringifyTask ts) @ '']''"

text \<open>
  Reading. Every reader takes the text and returns the value with the text that is left,
  or \<open>None\<close>. \<open>expect\<close> reads a literal.
\<close>

definition expect :: "string \<Rightarrow> string \<Rightarrow> string option" where
  "expect lit s = (if take (length lit) s = lit then Some (drop (length lit) s) else None)"

text \<open>
  An integer: an optional minus sign and decimal digits, with no leading zero before
  another digit.
\<close>

definition parseNumber :: "string \<Rightarrow> (int \<times> string) option" where
  "parseNumber s =
     (let neg = (take 1 s = ''-'');
          s1 = (if neg then drop 1 s else s);
          ds = takeWhile (isDigitIn 10) s1;
          rest = dropWhile (isDigitIn 10) s1
      in if ds = [] \<or> (1 < length ds \<and> hd ds = CHR ''0'') then None
         else Some (if neg then - int (digitsValue 10 ds) else int (digitsValue 10 ds), rest))"

text \<open>The character that a short escape stands for.\<close>

definition unescape :: "char \<Rightarrow> char option" where
  "unescape e =
     (if e = CHR 0x22 \<or> e = CHR 0x5C \<or> e = CHR ''/'' then Some e
      else if e = CHR ''b'' then Some (CHR 0x08)
      else if e = CHR ''f'' then Some (CHR 0x0C)
      else if e = CHR ''n'' then Some (CHR 0x0A)
      else if e = CHR ''r'' then Some (CHR 0x0D)
      else if e = CHR ''t'' then Some (CHR 0x09)
      else None)"

text \<open>The value of the hexadecimal digits of a \<open>\u\<close> escape.\<close>

definition hex4 :: "string \<Rightarrow> nat option" where
  "hex4 hs = (if list_all (isDigitIn 16) hs then Some (digitsValue 16 hs) else None)"

definition consResult :: "'a \<Rightarrow> ('a list \<times> string) option \<Rightarrow> ('a list \<times> string) option" where
  "consResult x res = map_option (\<lambda>(xs, rest). (x # xs, rest)) res"

text \<open>
  The characters of a string up to the closing quote. A raw code unit below \<open>0x20\<close> is
  refused, and so is an escape of a code unit from \<open>0x100\<close> on, which no \<open>char\<close> stands
  for.
\<close>

fun parseChars :: "string \<Rightarrow> (string \<times> string) option" where
  "parseChars [] = None"
| "parseChars (c # cs) =
     (if c = CHR 0x22 then Some ([], cs)
      else if c = CHR 0x5C then
        (case cs of
           [] \<Rightarrow> None
         | e # r \<Rightarrow>
             if e = CHR ''u'' then
               (case r of
                  h1 # h2 # h3 # h4 # r' \<Rightarrow>
                    (case hex4 [h1, h2, h3, h4] of
                       Some n \<Rightarrow> if n < 256 then consResult (char_of n) (parseChars r') else None
                     | None \<Rightarrow> None)
                | _ \<Rightarrow> None)
             else (case unescape e of
                     Some ch \<Rightarrow> consResult ch (parseChars r)
                   | None \<Rightarrow> None))
      else if (of_char c :: nat) < 32 then None
      else consResult c (parseChars cs))"

definition parseString :: "string \<Rightarrow> (string \<times> string) option" where
  "parseString s = (case s of [] \<Rightarrow> None | c # cs \<Rightarrow> if c = CHR 0x22 then parseChars cs else None)"

definition parseBool :: "string \<Rightarrow> (bool \<times> string) option" where
  "parseBool s =
     (if take 4 s = ''true'' then Some (True, drop 4 s)
      else if take 5 s = ''false'' then Some (False, drop 5 s)
      else None)"

definition parseTask :: "string \<Rightarrow> (Task \<times> string) option" where
  "parseTask s = do {
     s1 \<leftarrow> expect (''{'' @ quoteJSONString ''id'' @ '':'') s;
     (i, s2) \<leftarrow> parseNumber s1;
     s3 \<leftarrow> expect ('','' @ quoteJSONString ''text'' @ '':'') s2;
     (txt, s4) \<leftarrow> parseString s3;
     s5 \<leftarrow> expect ('','' @ quoteJSONString ''completed'' @ '':'') s4;
     (b, s6) \<leftarrow> parseBool s5;
     s7 \<leftarrow> expect ('','' @ quoteJSONString ''pomodoros'' @ '':'') s6;
     (p, s8) \<leftarrow> parseNumber s7;
     s9 \<leftarrow> expect ''}'' s8;
     Some (\<lparr>id_task = i, text_task = txt, completed = b, pomodoros = p\<rparr>, s9)
   }"

text \<open>
  The tasks of an array after its opening bracket, separated by commas, up to the closing
  bracket. Every task takes at least one character, so the length of the text is fuel
  enough.
\<close>

fun parseItems :: "nat \<Rightarrow> string \<Rightarrow> (Task list \<times> string) option" where
  "parseItems 0 s = None"
| "parseItems (Suc fuel) s =
     (case parseTask s of
        None \<Rightarrow> None
      | Some (t, r) \<Rightarrow>
          (case r of
             [] \<Rightarrow> None
           | c # r' \<Rightarrow>
               if c = CHR '','' then consResult t (parseItems fuel r')
               else if c = CHR '']'' then Some ([t], r')
               else None))"

definition JSON_parse :: "string \<Rightarrow> Task list option" where
  "JSON_parse s =
     (case s of
        [] \<Rightarrow> None
      | c # r \<Rightarrow>
          if c \<noteq> CHR ''['' then None
          else if r = '']'' then Some []
          else (case parseItems (length r) r of
                  Some (ts, rest) \<Rightarrow> if rest = [] then Some ts else None
                | None \<Rightarrow> None))"

text \<open>
  \<open>localStorage\<close> maps keys to texts. The effect on \<open>tasks\<close> stores their text under the
  key \<open>pomodoro-tasks\<close>; the effect that runs on mount reads the key and, when there is a
  text and it is not empty, sets the tasks to what \<open>JSON.parse\<close> returns.
  \<open>Rejected\<close> stands for a text outside the documents modelled here: \<open>JSON.parse\<close> throws
  a \<open>SyntaxError\<close> on it or returns a value of another shape.
\<close>

type_synonym storage = "string \<rightharpoonup> string"

datatype error = Rejected

definition saveTasks :: "state \<Rightarrow> storage \<Rightarrow> storage" where
  "saveTasks s localStorage = localStorage(''pomodoro-tasks'' \<mapsto> JSON_stringify (tasks s))"

definition loadTasks :: "storage \<Rightarrow> state \<Rightarrow> error + state" where
  "loadTasks localStorage s =
     (case localStorage ''pomodoro-tasks'' of
        None \<Rightarrow> Inr s
      | Some savedTasks \<Rightarrow>
          if savedTasks = [] then Inr s
          else (case JSON_parse savedTasks of
                  None \<Rightarrow> Inl Rejected
                | Some ts \<Rightarrow> Inr (s\<lparr>tasks := ts\<rparr>)))"

text \<open>
  What may follow the digits of a number: the end of the text or a character that is not
  a decimal digit.
\<close>

definition terminated :: "string \<Rightarrow> bool" where
  "terminated r = (case r of [] \<Rightarrow> True | c # _ \<Rightarrow> \<not> isDigitIn 10 c)"

section \<open>The countdown\<close>

text \<open>Single steps of the countdown, by the three branches of the state updater.\<close>

lemma tick_second:
  assumes "isActive s" and "time s = \<lparr>minutes = m, seconds = Num (int (Suc k))\<rparr>"
  shows "tick s = s\<lparr>time := \<lparr>minutes = m, seconds = Num (int k)\<rparr>\<rparr>"
  using assms by (simp add: tick_def intervalCallback_def)

lemma tick_minute:
  assumes "isActive s" and "time s = \<lparr>minutes = Num (int (Suc m)), seconds = Num 0\<rparr>"
  shows "tick s = s\<lparr>time := \<lparr>minutes = Num (int m), seconds = Num 59\<rparr>\<rparr>"
  using assms by (simp add: tick_def intervalCallback_def)

lemma tick_complete:
  assumes "isActive s" and "time s = \<lparr>minutes = Num 0, seconds = Num 0\<rparr>"
  shows "tick s = handleTimerComplete s"
  using assms by (simp add: tick_def intervalCallback_def)

lemma tick_inactive: "\<not> isActive s \<Longrightarrow> (tick ^^ j) s = s"
  by (induction j) (simp_all add: tick_def)

lemma handleTimerComplete_inactive: "\<not> isActive (handleTimerComplete s)"
  by (simp add: handleTimerComplete_def switchTimer_def Let_def)

lemma funpow_tick_seconds:
  assumes "isActive s" and "time s = \<lparr>minutes = m, seconds = Num (int k)\<rparr>"
  shows "(tick ^^ k) s = s\<lparr>time := \<lparr>minutes = m, seconds = Num 0\<rparr>\<rparr>"
  using assms
proof (induction k arbitrary: s)
  case 0
  then show ?case by simp
next
  case (Suc k)
  let ?s' = "s\<lparr>time := \<lparr>minutes = m, seconds = Num (int k)\<rparr>\<rparr>"
  have step: "tick s = ?s'"
    using Suc.prems by (rule tick_second)
  have "(tick ^^ Suc k) s = (tick ^^ k) (tick s)"
    by (simp add: funpow_swap1)
  also have "\<dots> = (tick ^^ k) ?s'"
    by (simp only: step)
  also have "\<dots> = ?s'\<lparr>time := \<lparr>minutes = m, seconds = Num 0\<rparr>\<rparr>"
    using Suc.prems(1) by (intro Suc.IH) simp_all
  finally show ?case by simp
qed

lemma funpow_tick_zero:
  assumes "isActive s" and "time s = \<lparr>minutes = Num (int m), seconds = Num (int k)\<rparr>"
  shows "(tick ^^ (m * 60 + k)) s = s\<lparr>time := \<lparr>minutes = Num 0, seconds = Num 0\<rparr>\<rparr>"
  using assms
proof (induction m arbitrary: s k)
  case 0
  then show ?case using funpow_tick_seconds [of s "Num 0" k] by simp
next
  case (Suc m)
  let ?a = "s\<lparr>time := \<lparr>minutes = Num (int (Suc m)), seconds = Num 0\<rparr>\<rparr>"
  let ?b = "s\<lparr>time := \<lparr>minutes = Num (int m), seconds = Num (int 59)\<rparr>\<rparr>"
  have a: "(tick ^^ k) s = ?a"
    using Suc.prems by (rule funpow_tick_seconds)
  have b: "tick ?a = ?b"
    using tick_minute [of ?a m] Suc.prems(1) by simp
  have c: "(tick ^^ (m * 60 + 59)) ?b = ?b\<lparr>time := \<lparr>minutes = Num 0, seconds = Num 0\<rparr>\<rparr>"
    using Suc.prems(1) by (intro Suc.IH) simp_all
  have "Suc m * 60 + k = (m * 60 + 59) + (1 + k)"
    by simp
  then have "(tick ^^ (Suc m * 60 + k)) s = (tick ^^ (m * 60 + 59)) ((tick ^^ (1 + k)) s)"
    by (simp only: funpow_add o_apply)
  also have "(tick ^^ (1 + k)) s = ?b"
    using a b by simp
  finally show ?case using c by simp
qed

lemma handleTimerComplete_log:
  "log (handleTimerComplete s) =
     log s @ TimerComplete (timerType s) # (if \<not> isMuted s \<and> audioRef s then [AudioPlay] else [])"
  by (simp add: handleTimerComplete_def switchTimer_def Let_def)

lemma started_time:
  "isActive (toggleTimer initialState) \<and>
   time (toggleTimer initialState) = \<lparr>minutes = Num (int 25), seconds = Num (int 0)\<rparr>"
  by (simp add: toggleTimer_def initialState_def)

text \<open>
  C1 (as the code has it). A running session whose time is \<open>(m, k)\<close> shows \<open>00:00\<close> after
  \<open>m * 60 + k\<close> ticks and is then still running, with nothing fired. The tick after that
  one, number \<open>m * 60 + k + 1\<close>, calls \<open>handleTimerComplete\<close>: it is the only completion,
  every later second (\<open>j\<close> of them) changes nothing, and the trace grows by exactly one
  \<open>TimerComplete\<close>, followed by one \<open>AudioPlay\<close> when the sound is not muted and the audio
  element is mounted.
\<close>

theorem tick_completion_on_next_tick:
  assumes "isActive s"
    and "time s = \<lparr>minutes = Num (int m), seconds = Num (int k)\<rparr>"
  shows "(tick ^^ (m * 60 + k)) s = s\<lparr>time := \<lparr>minutes = Num 0, seconds = Num 0\<rparr>\<rparr>
    \<and> (tick ^^ (m * 60 + k + 1)) s =
        handleTimerComplete (s\<lparr>time := \<lparr>minutes = Num 0, seconds = Num 0\<rparr>\<rparr>)
    \<and> (tick ^^ (m * 60 + k + 1 + j)) s = (tick ^^ (m * 60 + k + 1)) s
    \<and> log ((tick ^^ (m * 60 + k + 1 + j)) s) =
        log s @ TimerComplete (timerType s) #
          (if \<not> isMuted s \<and> audioRef s then [AudioPlay] else [])"
proof -
  let ?z = "s\<lparr>time := \<lparr>minutes = Num 0, seconds = Num 0\<rparr>\<rparr>"
  have reach: "(tick ^^ (m * 60 + k)) s = ?z"
    using assms by (rule funpow_tick_zero)
  have "(tick ^^ (m * 60 + k + 1)) s = tick ((tick ^^ (m * 60 + k)) s)"
    by simp
  also have "\<dots> = handleTimerComplete ?z"
    using assms(1) by (simp only: reach) (rule tick_complete, simp_all)
  finally have compl: "(tick ^^ (m * 60 + k + 1)) s = handleTimerComplete ?z" .
  have "(tick ^^ (m * 60 + k + 1 + j)) s = (tick ^^ j) ((tick ^^ (m * 60 + k + 1)) s)"
    by (simp only: funpow_add o_apply add.commute [of _ j])
  also have "\<dots> = (tick ^^ (m * 60 + k + 1)) s"
    by (simp only: compl) (rule tick_inactive, rule handleTimerComplete_inactive)
  finally have stay: "(tick ^^ (m * 60 + k + 1 + j)) s = (tick ^^ (m * 60 + k + 1)) s" .
  have "log ((tick ^^ (m * 60 + k + 1 + j)) s) = log (handleTimerComplete ?z)"
    by (simp only: stay compl)
  then have trace: "log ((tick ^^ (m * 60 + k + 1 + j)) s) =
      log s @ TimerComplete (timerType s) #
        (if \<not> isMuted s \<and> audioRef s then [AudioPlay] else [])"
    by (simp add: handleTimerComplete_log)
  from reach compl stay trace show ?thesis by blast
qed

text \<open>
  The scenario of the specification: a Work session started at \<open>25:00\<close> is at \<open>00:00\<close> and
  running after 1500 ticks; tick 1501 gives a stopped short break at \<open>05:00\<close>, one more
  completed pomodoro and one notification.
\<close>

theorem tick_completion_on_next_tick_witness:
  "(tick ^^ 1500) (toggleTimer initialState) =
     initialState\<lparr>isActive := True, time := \<lparr>minutes = Num 0, seconds = Num 0\<rparr>\<rparr>
   \<and> (tick ^^ 1501) (toggleTimer initialState) =
     initialState\<lparr>timerType := ShortBreak, time := \<lparr>minutes = Num 5, seconds = Num 0\<rparr>,
       completedPomodoros := 1, log := [TimerComplete Work, AudioPlay]\<rparr>
   \<and> (tick ^^ 1511) (toggleTimer initialState) = (tick ^^ 1501) (toggleTimer initialState)"
  using tick_completion_on_next_tick [of "toggleTimer initialState" 25 0 10] started_time
  by (simp add: toggleTimer_def initialState_def handleTimerComplete_def switchTimer_def
      defaultSettings_def Let_def)

text \<open>
  C1 as stated fails: after exactly \<open>25 * 60 + 0 = 1500\<close> ticks the Work session has not
  completed. It is still running, of kind Work, the counter is unchanged and nothing was
  fired.
\<close>

theorem tick_1500_not_complete:
  "isActive ((tick ^^ 1500) (toggleTimer initialState))
   \<and> timerType ((tick ^^ 1500) (toggleTimer initialState)) = Work
   \<and> time ((tick ^^ 1500) (toggleTimer initialState)) = \<lparr>minutes = Num 0, seconds = Num 0\<rparr>
   \<and> completedPomodoros ((tick ^^ 1500) (toggleTimer initialState)) = 0
   \<and> log ((tick ^^ 1500) (toggleTimer initialState)) = []"
  using funpow_tick_zero [of "toggleTimer initialState" 25 0] started_time
  by (simp add: toggleTimer_def initialState_def)

section \<open>The transition at the end of a session\<close>

lemma handleTimerComplete_counter:
  "completedPomodoros (handleTimerComplete s) =
     completedPomodoros s + (if timerType s = Work then 1 else 0)"
  by (simp add: handleTimerComplete_def switchTimer_def Let_def)

lemma handleTimerComplete_kind:
  "timerType (handleTimerComplete s) = (if timerType s = Work then ShortBreak else Work)"
  by (simp add: handleTimerComplete_def switchTimer_def Let_def)

lemma switchTimer_counter: "completedPomodoros (switchTimer k s) = completedPomodoros s"
  by (simp add: switchTimer_def)

lemma switchTimer_kind: "timerType (switchTimer k s) = k"
  by (simp add: switchTimer_def)

lemma completeSessions_counter:
  "completedPomodoros (completeSessions ks s) =
     completedPomodoros s + int (length (filter (\<lambda>k. k = Work) ks))"
proof (induction ks arbitrary: s)
  case Nil
  show ?case by simp
next
  case (Cons k ks)
  have "completedPomodoros (completeSessions (k # ks) s) =
      completedPomodoros (handleTimerComplete (switchTimer k s)) +
      int (length (filter (\<lambda>k. k = Work) ks))"
    by (simp add: Cons.IH)
  also have "completedPomodoros (handleTimerComplete (switchTimer k s)) =
      completedPomodoros s + (if k = Work then 1 else 0)"
    by (simp add: handleTimerComplete_counter switchTimer_counter switchTimer_kind)
  finally show ?case by simp
qed

text \<open>
  C2. When a session of kind Work completes, the counter of completed pomodoros grows by
  exactly one and the kind becomes ShortBreak; when a ShortBreak or LongBreak session
  completes, the kind becomes Work and the counter keeps its value. So after a run of
  completed sessions the counter has grown by the number of Work sessions among them.
\<close>

theorem handleTimerComplete_transition:
  "(timerType s = Work \<longrightarrow>
      completedPomodoros (handleTimerComplete s) = completedPomodoros s + 1 \<and>
      timerType (handleTimerComplete s) = ShortBreak)
   \<and> (timerType s = ShortBreak \<or> timerType s = LongBreak \<longrightarrow>
      timerType (handleTimerComplete s) = Work \<and>
      completedPomodoros (handleTimerComplete s) = completedPomodoros s)
   \<and> completedPomodoros (completeSessions ks s) =
      completedPomodoros s + int (length (filter (\<lambda>k. k = Work) ks))"
proof (intro conjI impI)
  assume "timerType s = Work"
  then show "completedPomodoros (handleTimerComplete s) = completedPomodoros s + 1"
    and "timerType (handleTimerComplete s) = ShortBreak"
    by (simp_all add: handleTimerComplete_counter handleTimerComplete_kind)
next
  assume "timerType s = ShortBreak \<or> timerType s = LongBreak"
  then have "timerType s \<noteq> Work" by auto
  then show "timerType (handleTimerComplete s) = Work"
    and "completedPomodoros (handleTimerComplete s) = completedPomodoros s"
    by (simp_all add: handleTimerComplete_counter handleTimerComplete_kind)
next
  show "completedPomodoros (completeSessions ks s) =
      completedPomodoros s + int (length (filter (\<lambda>k. k = Work) ks))"
    by (rule completeSessions_counter)
qed

text \<open>
  At the initial state: a completed Work session, a completed long break, a completed
  short break, and a run of five sessions, three of them Work.
\<close>

theorem handleTimerComplete_transition_witness:
  "completedPomodoros (handleTimerComplete initialState) = 1
   \<and> timerType (handleTimerComplete initialState) = ShortBreak
   \<and> timerType (handleTimerComplete (switchTimer LongBreak initialState)) = Work
   \<and> completedPomodoros (handleTimerComplete (switchTimer LongBreak initialState)) = 0
   \<and> timerType (handleTimerComplete (switchTimer ShortBreak initialState)) = Work
   \<and> completedPomodoros
        (completeSessions [Work, ShortBreak, Work, LongBreak, Work] initialState) = 3"
  using handleTimerComplete_transition [of initialState "[Work, ShortBreak, Work, LongBreak, Work]"]
    handleTimerComplete_transition [of "switchTimer LongBreak initialState" "[]"]
    handleTimerComplete_transition [of "switchTimer ShortBreak initialState" "[]"]
  by (simp add: initialState_def switchTimer_def)

section \<open>Switching the kind\<close>

text \<open>
  C3. For a kind \<open>k\<close> whose configured duration is \<open>d > 0\<close> minutes, \<open>switchTimer k\<close> in
  any state sets the kind to \<open>k\<close> and the time to \<open>(d, 0)\<close>, that is \<open>d * 60\<close> remaining
  seconds, and leaves \<open>isActive\<close> as it was.
\<close>

theorem switchTimer_sets_duration:
  assumes "settingsGet (timerSettings s) k = Num d" and "0 < d"
  shows "timerType (switchTimer k s) = k
    \<and> time (switchTimer k s) = \<lparr>minutes = Num d, seconds = Num 0\<rparr>
    \<and> remainingSeconds (time (switchTimer k s)) = Num (d * 60)
    \<and> isActive (switchTimer k s) = isActive s"
  using assms by (simp add: switchTimer_def remainingSeconds_def)

text \<open>Switching a running timer to the long break of 15 minutes: it keeps running.\<close>

theorem switchTimer_sets_duration_witness:
  "timerType (switchTimer LongBreak (toggleTimer initialState)) = LongBreak
   \<and> time (switchTimer LongBreak (toggleTimer initialState)) = \<lparr>minutes = Num 15, seconds = Num 0\<rparr>
   \<and> remainingSeconds (time (switchTimer LongBreak (toggleTimer initialState))) = Num 900
   \<and> isActive (switchTimer LongBreak (toggleTimer initialState))"
proof -
  have h: "settingsGet (timerSettings (toggleTimer initialState)) LongBreak = Num 15"
    by (simp add: toggleTimer_def initialState_def defaultSettings_def)
  have a: "isActive (toggleTimer initialState)"
    by (simp add: toggleTimer_def initialState_def)
  from switchTimer_sets_duration [OF h] a show ?thesis by (simp add: remainingSeconds_def)
qed

section \<open>Start and pause\<close>

text \<open>
  C4 (as the code has it). Start and pause are one control, \<open>toggleTimer\<close>. It starts a
  paused session and pauses a running one, it leaves the remaining time and the kind
  alone, and pressing it twice (pause, then start) gives back the state exactly.
\<close>

theorem toggleTimer_flips:
  "(\<not> isActive s \<longrightarrow> isActive (toggleTimer s))
   \<and> (isActive s \<longrightarrow> \<not> isActive (toggleTimer s))
   \<and> time (toggleTimer s) = time s
   \<and> timerType (toggleTimer s) = timerType s
   \<and> toggleTimer (toggleTimer s) = s"
  by (simp add: toggleTimer_def)

text \<open>From the initial state: started, then paused again, with the time still \<open>25:00\<close>.\<close>

theorem toggleTimer_flips_witness:
  "isActive (toggleTimer initialState)
   \<and> \<not> isActive (toggleTimer (toggleTimer initialState))
   \<and> time (toggleTimer initialState) = \<lparr>minutes = Num 25, seconds = Num 0\<rparr>
   \<and> toggleTimer (toggleTimer (toggleTimer initialState)) = toggleTimer initialState"
  using toggleTimer_flips [of initialState] toggleTimer_flips [of "toggleTimer initialState"]
  by (simp add: initialState_def)

text \<open>
  C4 as stated fails: on a session that is already running the control is not a no-op,
  it pauses the session.
\<close>

theorem toggleTimer_running_not_noop:
  "isActive (toggleTimer initialState)
   \<and> toggleTimer (toggleTimer initialState) \<noteq> toggleTimer initialState"
  by (simp add: toggleTimer_def initialState_def)

section \<open>Adding a task\<close>

lemma trim_Nil_iff: "trim s = [] \<longleftrightarrow> (\<forall>c\<in>set s. isWhiteSpace c)"
proof -
  have "trim s = [] \<longleftrightarrow> (\<forall>c\<in>set (dropWhile isWhiteSpace s). isWhiteSpace c)"
    by (simp add: trim_def dropWhile_eq_Nil_conv)
  also have "\<dots> \<longleftrightarrow> dropWhile isWhiteSpace s = []"
  proof
    assume all: "\<forall>c\<in>set (dropWhile isWhiteSpace s). isWhiteSpace c"
    show "dropWhile isWhiteSpace s = []"
    proof (rule ccontr)
      assume ne: "dropWhile isWhiteSpace s \<noteq> []"
      then have "\<not> isWhiteSpace (hd (dropWhile isWhiteSpace s))"
        by (rule hd_dropWhile)
      moreover have "hd (dropWhile isWhiteSpace s) \<in> set (dropWhile isWhiteSpace s)"
        using ne by (rule hd_in_set)
      ultimately show False using all by blast
    qed
  next
    assume d: "dropWhile isWhiteSpace s = []"
    show "\<forall>c\<in>set (dropWhile isWhiteSpace s). isWhiteSpace c"
      by (simp only: d list.set ball_empty)
  qed
  also have "\<dots> \<longleftrightarrow> (\<forall>c\<in>set s. isWhiteSpace c)"
    by (rule dropWhile_eq_Nil_conv)
  finally show ?thesis .
qed

lemma addTask_tasks:
  "tasks (addTask now s) =
     (if trim (newTask s) = [] then tasks s
      else tasks s @ [\<lparr>id_task = now, text_task = newTask s, completed = False, pomodoros = 0\<rparr>])"
  by (simp add: addTask_def)

lemma trim_examples:
  "trim '''' = []" "trim ''   '' = []" "trim ''write spec'' \<noteq> []" "trim ''  write spec '' \<noteq> []"
  by (simp_all add: trim_def isWhiteSpace_def)

text \<open>
  C5. The text trims to the empty string exactly when it is empty or consists of white
  space only. Submitting such a text leaves the task list as it is; submitting any other
  text appends exactly one task at the end, not completed and with no pomodoros, and the
  tasks already there stay as they are, in their order.
\<close>

theorem addTask_rejects_blank_appends_other:
  "(trim text = [] \<longleftrightarrow> (\<forall>c\<in>set text. isWhiteSpace c))
   \<and> (trim text = [] \<longrightarrow> tasks (addTask now (setNewTask text s)) = tasks s)
   \<and> (trim text \<noteq> [] \<longrightarrow>
        tasks (addTask now (setNewTask text s)) =
          tasks s @ [\<lparr>id_task = now, text_task = text, completed = False, pomodoros = 0\<rparr>])"
  by (simp add: trim_Nil_iff addTask_tasks setNewTask_def)

text \<open>
  The examples of the specification: the empty text and three blanks are rejected,
  \<open>write spec\<close> is appended.
\<close>

theorem addTask_rejects_blank_appends_other_witness:
  "tasks (addTask 1730000000000 (setNewTask '''' initialState)) = []
   \<and> tasks (addTask 1730000000000 (setNewTask ''   '' initialState)) = []
   \<and> tasks (addTask 1730000000000 (setNewTask ''write spec'' initialState)) =
       [\<lparr>id_task = 1730000000000, text_task = ''write spec'', completed = False, pomodoros = 0\<rparr>]"
  using addTask_rejects_blank_appends_other [of "''''" 1730000000000 initialState]
    addTask_rejects_blank_appends_other [of "''   ''" 1730000000000 initialState]
    addTask_rejects_blank_appends_other [of "''write spec''" 1730000000000 initialState]
    trim_examples
  by (simp add: initialState_def)

text \<open>
  C10. When the text is accepted, the new task holds it verbatim: the trimmed form
  decides acceptance only and is never stored.
\<close>

theorem addTask_text_verbatim:
  assumes "trim text \<noteq> []"
  shows "tasks (addTask now (setNewTask text s)) \<noteq> []
    \<and> text_task (last (tasks (addTask now (setNewTask text s)))) = text"
  using assms by (simp add: addTask_tasks setNewTask_def)

text \<open>A text with blanks on both sides is stored with its blanks.\<close>

theorem addTask_text_verbatim_witness:
  "text_task (last (tasks (addTask 1730000000000 (setNewTask ''  write spec '' initialState)))) =
     ''  write spec ''
   \<and> trim ''  write spec '' = ''write spec''"
proof -
  have t: "trim ''  write spec '' = ''write spec''"
    by (simp add: trim_def isWhiteSpace_def)
  then have "trim ''  write spec '' \<noteq> []" by simp
  from addTask_text_verbatim [OF this] t show ?thesis by blast
qed

section \<open>Task identifiers\<close>

text \<open>
  The identifiers of the tasks, in order, after each operation. Toggling, incrementing
  and removing keep them pairwise distinct; adding does when \<open>Date.now()\<close> returns a
  value that no task of the list has as its identifier.
\<close>

lemma toggleTaskCompletion_ids:
  "map id_task (tasks (toggleTaskCompletion i s)) = map id_task (tasks s)"
  by (simp add: toggleTaskCompletion_def comp_def)

lemma incrementTaskPomodoros_ids:
  "map id_task (tasks (incrementTaskPomodoros i s)) = map id_task (tasks s)"
  by (simp add: incrementTaskPomodoros_def comp_def)

lemma removeTask_ids:
  "map id_task (tasks (removeTask i s)) = filter (\<lambda>j. j \<noteq> i) (map id_task (tasks s))"
  by (simp add: removeTask_def filter_map comp_def)

lemma addTask_ids:
  "map id_task (tasks (addTask now s)) =
     (if trim (newTask s) = [] then map id_task (tasks s) else map id_task (tasks s) @ [now])"
  by (simp add: addTask_def)

lemma distinct_ids_preserved:
  assumes "distinct (map id_task (tasks s))"
  shows "distinct (map id_task (tasks (toggleTaskCompletion i s)))"
    and "distinct (map id_task (tasks (incrementTaskPomodoros i s)))"
    and "distinct (map id_task (tasks (removeTask i s)))"
    and "now \<notin> id_task ` set (tasks s) \<Longrightarrow> distinct (map id_task (tasks (addTask now s)))"
  using assms
  by (simp_all add: toggleTaskCompletion_ids incrementTaskPomodoros_ids removeTask_ids addTask_ids)

text \<open>
  C6. The identifier of a new task is the value of \<open>Date.now()\<close>, so two tasks added
  within the same millisecond get the same identifier: the identifiers are then not
  pairwise distinct.
\<close>

theorem addTask_same_millisecond_duplicate_ids:
  "map id_task (tasks (addTask 1730000000000 (setNewTask ''B''
       (addTask 1730000000000 (setNewTask ''A'' initialState))))) =
     [1730000000000, 1730000000000]
   \<and> \<not> distinct (map id_task (tasks (addTask 1730000000000 (setNewTask ''B''
       (addTask 1730000000000 (setNewTask ''A'' initialState))))))"
  by (simp add: addTask_def setNewTask_def initialState_def trim_def isWhiteSpace_def)

section \<open>Operations on a task by identifier\<close>

text \<open>
  With an identifier that no task has, toggling, incrementing and removing return the
  state unchanged. Removing yields a subsequence of the list, and the scenario of the
  specification gives the list \<open>B\<close> alone when the two tasks got different identifiers.
\<close>

lemma absent_id_noop:
  assumes "i \<notin> id_task ` set (tasks s)"
  shows "toggleTaskCompletion i s = s"
    and "incrementTaskPomodoros i s = s"
    and "removeTask i s = s"
proof -
  have ne: "\<forall>task\<in>set (tasks s). id_task task \<noteq> i"
    using assms by auto
  have "map (\<lambda>task. if id_task task = i then task\<lparr>completed := \<not> completed task\<rparr> else task)
      (tasks s) = tasks s"
    using ne by (simp add: map_idI)
  then show "toggleTaskCompletion i s = s"
    by (simp add: toggleTaskCompletion_def)
  have "map (\<lambda>task. if id_task task = i then task\<lparr>pomodoros := pomodoros task + 1\<rparr> else task)
      (tasks s) = tasks s"
    using ne by (simp add: map_idI)
  then show "incrementTaskPomodoros i s = s"
    by (simp add: incrementTaskPomodoros_def)
  have "filter (\<lambda>task. id_task task \<noteq> i) (tasks s) = tasks s"
    using ne by (simp add: filter_id_conv)
  then show "removeTask i s = s"
    by (simp add: removeTask_def)
qed

lemma removeTask_subseq: "subseq (tasks (removeTask i s)) (tasks s)"
  by (simp add: removeTask_def)

lemma add_add_remove_distinct:
  assumes "t1 \<noteq> t2"
  shows "map text_task (tasks (removeTask t1 (addTask t2 (setNewTask ''B''
           (addTask t1 (setNewTask ''A'' initialState)))))) = [''B'']"
  using assms
  by (simp add: removeTask_def addTask_def setNewTask_def initialState_def trim_def
      isWhiteSpace_def)

text \<open>
  C8. When the tasks \<open>A\<close> and \<open>B\<close> are added within the same millisecond, they share
  their identifier, and removing by the identifier of \<open>A\<close> removes both: the list is
  empty afterwards, not \<open>B\<close> alone.
\<close>

theorem removeTask_same_millisecond_removes_both:
  "map text_task (tasks (addTask 1730000000000 (setNewTask ''B''
       (addTask 1730000000000 (setNewTask ''A'' initialState))))) = [''A'', ''B'']
   \<and> map text_task (tasks (removeTask 1730000000000 (addTask 1730000000000 (setNewTask ''B''
       (addTask 1730000000000 (setNewTask ''A'' initialState)))))) = []"
  by (simp add: removeTask_def addTask_def setNewTask_def initialState_def trim_def
      isWhiteSpace_def)

section \<open>The duration settings\<close>

lemma settingsGet_settingsSet:
  "settingsGet (settingsSet ts key v) k = (if k = key then v else settingsGet ts k)"
  by (cases key; cases k) simp_all

lemma allPositive_iff: "allPositive ts \<longleftrightarrow> (\<forall>k. positive (settingsGet ts k))"
proof
  assume "allPositive ts"
  then show "\<forall>k. positive (settingsGet ts k)"
    by (auto simp: allPositive_def intro: TimerType.induct [where P = "\<lambda>k. positive (settingsGet ts k)"])
next
  assume a: "\<forall>k. positive (settingsGet ts k)"
  from a [rule_format, of Work] a [rule_format, of ShortBreak] a [rule_format, of LongBreak]
  show "allPositive ts" by (simp add: allPositive_def)
qed

lemma parseInt_examples:
  "parseInt ''30'' = Num 30" "parseInt ''0'' = Num 0" "parseInt '''' = NaN"
  "parseInt ''-5'' = Num (- 5)"
  by (simp_all add: parseInt_def isWhiteSpace_def isDigitIn_def digitVal_def digitsValue_def)

text \<open>
  C7 (as the code has it). The settings start at 25, 5 and 15 minutes, all positive. A
  change of the setting \<open>key\<close> stores \<open>parseInt\<close> of the text typed, whatever it is, and
  leaves the two other settings alone; so, from settings that are all positive, the new
  settings are all positive exactly when the text parses to a positive integer.
\<close>

theorem onChangeSetting_keeps_positive_iff:
  "timerSettings initialState = \<lparr>work = Num 25, shortBreak = Num 5, longBreak = Num 15\<rparr>
   \<and> allPositive (timerSettings initialState)
   \<and> settingsGet (timerSettings (onChangeSetting key v s)) key = parseInt v
   \<and> (k \<noteq> key \<longrightarrow>
        settingsGet (timerSettings (onChangeSetting key v s)) k = settingsGet (timerSettings s) k)
   \<and> (allPositive (timerSettings s) \<longrightarrow>
        (allPositive (timerSettings (onChangeSetting key v s)) \<longleftrightarrow> positive (parseInt v)))"
proof (intro conjI impI)
  show "timerSettings initialState = \<lparr>work = Num 25, shortBreak = Num 5, longBreak = Num 15\<rparr>"
    and "allPositive (timerSettings initialState)"
    by (simp_all add: initialState_def defaultSettings_def allPositive_def)
  show "settingsGet (timerSettings (onChangeSetting key v s)) key = parseInt v"
    by (simp add: onChangeSetting_def settingsGet_settingsSet)
  show "settingsGet (timerSettings (onChangeSetting key v s)) k = settingsGet (timerSettings s) k"
    if "k \<noteq> key" using that by (simp add: onChangeSetting_def settingsGet_settingsSet)
  show "allPositive (timerSettings (onChangeSetting key v s)) \<longleftrightarrow> positive (parseInt v)"
    if "allPositive (timerSettings s)"
    using that by (auto simp: allPositive_iff onChangeSetting_def settingsGet_settingsSet)
qed

text \<open>Typing 30 for the Work duration of the initial settings.\<close>

theorem onChangeSetting_keeps_positive_iff_witness:
  "settingsGet (timerSettings (onChangeSetting Work ''30'' initialState)) Work = Num 30
   \<and> settingsGet (timerSettings (onChangeSetting Work ''30'' initialState)) LongBreak = Num 15
   \<and> allPositive (timerSettings (onChangeSetting Work ''30'' initialState))"
  using onChangeSetting_keeps_positive_iff [of Work "''30''" initialState LongBreak]
    parseInt_examples
  by (simp add: initialState_def defaultSettings_def)

text \<open>
  C7 as stated fails: typing 0 stores the duration 0, and clearing the field stores
  \<open>NaN\<close>; neither is a positive integer.
\<close>

theorem onChangeSetting_zero_not_positive:
  "allPositive (timerSettings initialState)
   \<and> timerSettings (onChangeSetting Work ''0'' initialState) =
       \<lparr>work = Num 0, shortBreak = Num 5, longBreak = Num 15\<rparr>
   \<and> \<not> allPositive (timerSettings (onChangeSetting Work ''0'' initialState))
   \<and> timerSettings (onChangeSetting ShortBreak '''' initialState) =
       \<lparr>work = Num 25, shortBreak = NaN, longBreak = Num 15\<rparr>
   \<and> \<not> allPositive (timerSettings (onChangeSetting ShortBreak '''' initialState))"
  by (simp add: onChangeSetting_def parseInt_examples initialState_def defaultSettings_def
      allPositive_def)

section \<open>The round trip of the task list through the storage\<close>

text \<open>Numbers: reading the digits that were written gives the number back.\<close>

lemma of_char_digitChar: "d < 16 \<Longrightarrow> (of_char (digitChar d) :: nat) = (if d < 10 then 48 + d else 87 + d)"
  by (simp add: digitChar_def)

lemma digitVal_digitChar: "d < 16 \<Longrightarrow> digitVal (digitChar d) = Some d"
  by (simp add: digitVal_def of_char_digitChar Let_def)

lemma isDigitIn_digitChar: "d < R \<Longrightarrow> R \<le> 16 \<Longrightarrow> isDigitIn R (digitChar d)"
  by (simp add: isDigitIn_def digitVal_digitChar)

lemma showNat_digits: "c \<in> set (showNat n) \<Longrightarrow> isDigitIn 10 c"
proof (induction n rule: showNat.induct)
  case (1 n)
  show ?case
  proof (cases "n < 10")
    case True
    with "1.prems" show ?thesis
      by (simp add: showNat.simps [of n] isDigitIn_digitChar)
  next
    case False
    with "1.prems" "1.IH" show ?thesis
      by (auto simp: showNat.simps [of n] isDigitIn_digitChar)
  qed
qed

lemma showNat_not_Nil: "showNat n \<noteq> []"
  by (subst showNat.simps) simp

lemma digitsValue_snoc:
  "digitsValue R (Z @ [digitChar d]) = (if d < 16 then digitsValue R Z * R + d else digitsValue R (Z @ [digitChar d]))"
  by (simp add: digitsValue_def digitVal_digitChar)

lemma digitsValue_showNat: "digitsValue 10 (showNat n) = n"
proof (induction n rule: showNat.induct)
  case (1 n)
  show ?case
  proof (cases "n < 10")
    case True
    then show ?thesis
      by (simp add: showNat.simps [of n] digitsValue_def digitVal_digitChar)
  next
    case False
    then have "digitsValue 10 (showNat n) = digitsValue 10 (showNat (n div 10)) * 10 + n mod 10"
      by (simp add: showNat.simps [of n] digitsValue_snoc)
    also have "\<dots> = n div 10 * 10 + n mod 10"
      using False by (simp add: "1.IH")
    finally show ?thesis by simp
  qed
qed

lemma digitChar_zero_iff: "d < 10 \<Longrightarrow> digitChar d = CHR ''0'' \<longleftrightarrow> d = 0"
proof
  assume d: "d < 10" and "digitChar d = CHR ''0''"
  then have "(of_char (digitChar d) :: nat) = of_char (CHR ''0'')" by simp
  with d show "d = 0" by (simp add: of_char_digitChar)
next
  assume "d = 0"
  then have "(of_char (digitChar d) :: nat) = of_char (CHR ''0'')"
    by (simp add: of_char_digitChar)
  then show "digitChar d = CHR ''0''"
    by (simp only: of_char_eq_iff)
qed

lemma showNat_hd: "0 < n \<Longrightarrow> hd (showNat n) \<noteq> CHR ''0''"
proof (induction n rule: showNat.induct)
  case (1 n)
  show ?case
  proof (cases "n < 10")
    case True
    with "1.prems" show ?thesis
      by (simp add: showNat.simps [of n] digitChar_zero_iff)
  next
    case False
    then have "0 < n div 10" by simp
    with False "1.IH" have "hd (showNat (n div 10)) \<noteq> CHR ''0''" by simp
    with False show ?thesis
      by (simp add: showNat.simps [of n] showNat_not_Nil)
  qed
qed

lemma showNat_no_leading_zero: "\<not> (1 < length (showNat n) \<and> hd (showNat n) = CHR ''0'')"
proof (cases "n = 0")
  case True
  then show ?thesis by (simp add: showNat.simps [of 0])
next
  case False
  then show ?thesis using showNat_hd [of n] by simp
qed

lemma showNat_not_minus: "take 1 (showNat n @ r) \<noteq> ''-''"
proof -
  obtain c cs where sn: "showNat n = c # cs"
    using showNat_not_Nil [of n] by (cases "showNat n") auto
  then have "isDigitIn 10 c"
    using showNat_digits [of c n] by simp
  then have "c \<noteq> CHR ''-''"
    by (auto simp: isDigitIn_def digitVal_def)
  with sn show ?thesis by simp
qed

lemma takeWhile_showNat:
  assumes "terminated r"
  shows "takeWhile (isDigitIn 10) (showNat n @ r) = showNat n"
    and "dropWhile (isDigitIn 10) (showNat n @ r) = r"
  using assms
  by (auto simp: terminated_def takeWhile_append2 dropWhile_append2 showNat_digits
      split: list.splits)

lemma parseNumber_numberToString:
  assumes "terminated r"
  shows "parseNumber (numberToString i @ r) = Some (i, r)"
proof (cases "i < 0")
  case True
  then show ?thesis
    using showNat_no_leading_zero [of "nat (- i)"]
    by (simp add: parseNumber_def numberToString_def takeWhile_showNat [OF assms]
        showNat_not_Nil digitsValue_showNat Let_def)
next
  case False
  then show ?thesis
    using showNat_no_leading_zero [of "nat i"] showNat_not_minus [of "nat i" r]
    by (simp add: parseNumber_def numberToString_def takeWhile_showNat [OF assms]
        showNat_not_Nil digitsValue_showNat Let_def)
qed


lemma char_eqI: "(of_char c :: nat) = of_char d \<Longrightarrow> c = d"
  by (simp only: of_char_eq_iff)

lemma hex4_control:
  assumes "n < 256"
  shows "hex4 [CHR ''0'', CHR ''0'', digitChar (n div 16), digitChar (n mod 16)] = Some n"
proof -
  have d: "n div 16 < 16" "n mod 16 < 16"
    using assms by simp_all
  have z: "digitVal (CHR ''0'') = Some 0"
    by (simp add: digitVal_def)
  have "list_all (isDigitIn 16) [CHR ''0'', CHR ''0'', digitChar (n div 16), digitChar (n mod 16)]"
    using d by (simp add: isDigitIn_def z digitVal_digitChar)
  moreover have "digitsValue 16 [CHR ''0'', CHR ''0'', digitChar (n div 16), digitChar (n mod 16)] = n"
    using d by (simp add: digitsValue_def z digitVal_digitChar)
  ultimately show ?thesis by (simp add: hex4_def)
qed

lemma parseChars_escape:
  assumes "unescape e = Some ch" and "e \<noteq> CHR ''u''"
  shows "parseChars (CHR 0x5C # e # X) = consResult ch (parseChars X)"
  using assms by simp

lemma parseChars_quoteChar: "parseChars (quoteChar c @ X) = consResult c (parseChars X)"
proof -
  define n where "n = (of_char c :: nat)"
  have n: "n < 256" by (simp add: n_def)
  consider (b) "n = 8" | (t) "n = 9" | (n) "n = 10" | (f) "n = 12" | (r) "n = 13"
    | (q) "n = 34" | (s) "n = 92"
    | (ctl) "n < 32" "n \<notin> {8, 9, 10, 12, 13}"
    | (plain) "32 \<le> n" "n \<noteq> 34" "n \<noteq> 92"
    by fastforce
  then show ?thesis
  proof cases
    case b
    then have "c = CHR 0x08" by (intro char_eqI) (simp add: n_def)
    then show ?thesis by (simp add: quoteChar_def unescape_def)
  next
    case t
    then have "c = CHR 0x09" by (intro char_eqI) (simp add: n_def)
    then show ?thesis by (simp add: quoteChar_def unescape_def)
  next
    case n
    then have "c = CHR 0x0A" by (intro char_eqI) (simp add: n_def)
    then show ?thesis by (simp add: quoteChar_def unescape_def)
  next
    case f
    then have "c = CHR 0x0C" by (intro char_eqI) (simp add: n_def)
    then show ?thesis by (simp add: quoteChar_def unescape_def)
  next
    case r
    then have "c = CHR 0x0D" by (intro char_eqI) (simp add: n_def)
    then show ?thesis by (simp add: quoteChar_def unescape_def)
  next
    case q
    then have "c = CHR 0x22" by (intro char_eqI) (simp add: n_def)
    then show ?thesis by (simp add: quoteChar_def unescape_def)
  next
    case s
    then have "c = CHR 0x5C" by (intro char_eqI) (simp add: n_def)
    then show ?thesis by (simp add: quoteChar_def unescape_def)
  next
    case ctl
    then have q: "quoteChar c =
        [CHR 0x5C, CHR ''u'', CHR ''0'', CHR ''0'', digitChar (n div 16), digitChar (n mod 16)]"
      by (simp add: quoteChar_def Let_def flip: n_def)
    have "parseChars (quoteChar c @ X) = consResult (char_of n) (parseChars X)"
      using n by (simp add: q hex4_control)
    also have "char_of n = c"
      by (simp add: n_def)
    finally show ?thesis .
  next
    case plain
    then have q: "quoteChar c = [c]"
      by (simp add: quoteChar_def Let_def flip: n_def)
    have "c \<noteq> CHR 0x22" "c \<noteq> CHR 0x5C" "\<not> (of_char c :: nat) < 32"
      using plain by (auto simp: n_def)
    then show ?thesis by (simp add: q)
  qed
qed

lemma parseChars_quoted:
  "parseChars (concat (map quoteChar s) @ CHR 0x22 # X) = Some (s, X)"
  by (induction s) (simp_all add: parseChars_quoteChar consResult_def)

lemma parseString_quoteJSONString:
  "parseString (quoteJSONString s @ X) = Some (s, X)"
  by (simp add: parseString_def quoteJSONString_def parseChars_quoted)


lemma key_literals:
  "quoteJSONString ''id'' = [CHR 0x22, CHR ''i'', CHR ''d'', CHR 0x22]"
  "quoteJSONString ''text'' = [CHR 0x22, CHR ''t'', CHR ''e'', CHR ''x'', CHR ''t'', CHR 0x22]"
  "quoteJSONString ''completed'' =
     [CHR 0x22, CHR ''c'', CHR ''o'', CHR ''m'', CHR ''p'', CHR ''l'', CHR ''e'', CHR ''t'',
      CHR ''e'', CHR ''d'', CHR 0x22]"
  "quoteJSONString ''pomodoros'' =
     [CHR 0x22, CHR ''p'', CHR ''o'', CHR ''m'', CHR ''o'', CHR ''d'', CHR ''o'', CHR ''r'',
      CHR ''o'', CHR ''s'', CHR 0x22]"
  by (simp_all add: quoteJSONString_def quoteChar_def)

lemma terminated_punctuation: "terminated (CHR '','' # X)" "terminated (CHR ''}'' # X)"
  by (simp_all add: terminated_def isDigitIn_def digitVal_def)

lemma parseBool_literal:
  "parseBool (''true'' @ X) = Some (True, X)" "parseBool (''false'' @ X) = Some (False, X)"
  by (simp_all add: parseBool_def)

lemma parseTask_stringifyTask: "parseTask (stringifyTask t @ X) = Some (t, X)"
proof -
  let ?p = "'','' @ quoteJSONString ''pomodoros'' @ '':'' @ numberToString (pomodoros t) @ ''}'' @ X"
  let ?c = "'','' @ quoteJSONString ''completed'' @ '':''
              @ (if completed t then ''true'' else ''false'') @ ?p"
  let ?t = "'','' @ quoteJSONString ''text'' @ '':'' @ quoteJSONString (text_task t) @ ?c"
  have whole: "stringifyTask t @ X =
      ''{'' @ quoteJSONString ''id'' @ '':'' @ numberToString (id_task t) @ ?t"
    by (simp add: stringifyTask_def)
  have 1: "expect (''{'' @ quoteJSONString ''id'' @ '':'') (stringifyTask t @ X) =
      Some (numberToString (id_task t) @ ?t)"
    by (simp add: whole expect_def key_literals)
  have 2: "parseNumber (numberToString (id_task t) @ ?t) = Some (id_task t, ?t)"
    by (rule parseNumber_numberToString) (simp add: terminated_punctuation)
  have 3: "expect ('','' @ quoteJSONString ''text'' @ '':'') ?t =
      Some (quoteJSONString (text_task t) @ ?c)"
    by (simp add: expect_def key_literals)
  have 4: "parseString (quoteJSONString (text_task t) @ ?c) = Some (text_task t, ?c)"
    by (rule parseString_quoteJSONString)
  have 5: "expect ('','' @ quoteJSONString ''completed'' @ '':'') ?c =
      Some ((if completed t then ''true'' else ''false'') @ ?p)"
    by (simp add: expect_def key_literals)
  have 6: "parseBool ((if completed t then ''true'' else ''false'') @ ?p) = Some (completed t, ?p)"
    using parseBool_literal [of ?p] by (cases "completed t") simp_all
  have 7: "expect ('','' @ quoteJSONString ''pomodoros'' @ '':'') ?p =
      Some (numberToString (pomodoros t) @ ''}'' @ X)"
    by (simp add: expect_def key_literals)
  have 8: "parseNumber (numberToString (pomodoros t) @ ''}'' @ X) = Some (pomodoros t, ''}'' @ X)"
    by (rule parseNumber_numberToString) (simp add: terminated_punctuation)
  have 9: "expect ''}'' (''}'' @ X) = Some X"
    by (simp add: expect_def)
  show ?thesis
    unfolding parseTask_def
    by (simp only: 1 2 3 4 5 6 7 8 9 bind.bind_lunit prod.case) simp
qed

lemma parseItems_joinComma:
  "length ts < fuel \<Longrightarrow>
   parseItems fuel (joinComma (map stringifyTask (t # ts)) @ CHR '']'' # X) = Some (t # ts, X)"
proof (induction ts arbitrary: t fuel)
  case Nil
  then obtain f where "fuel = Suc f" by (cases fuel) auto
  then show ?case by (simp add: parseTask_stringifyTask)
next
  case (Cons u us)
  then obtain f where f: "fuel = Suc f" "length us < f" by (cases fuel) auto
  have "parseItems f (joinComma (map stringifyTask (u # us)) @ CHR '']'' # X) = Some (u # us, X)"
    using f(2) by (rule Cons.IH)
  then show ?case
    by (simp add: f(1) parseTask_stringifyTask consResult_def)
qed

lemma stringifyTask_Cons: "\<exists>r. stringifyTask t = CHR ''{'' # r"
  by (simp add: stringifyTask_def)

lemma joinComma_Cons: "\<exists>r. joinComma (map stringifyTask (t # ts)) = CHR ''{'' # r"
  using stringifyTask_Cons [of t] by (cases ts) auto

lemma length_joinComma: "length ts \<le> length (joinComma (map stringifyTask ts))"
proof (induction ts rule: induct_list012)
  case 1
  show ?case by simp
next
  case (2 t)
  show ?case using stringifyTask_Cons [of t] by auto
next
  case (3 t u us)
  then show ?case by simp
qed

lemma JSON_parse_stringify: "JSON_parse (JSON_stringify ts) = Some ts"
proof (cases ts)
  case Nil
  then show ?thesis by (simp add: JSON_parse_def JSON_stringify_def)
next
  case (Cons t us)
  let ?r = "joinComma (map stringifyTask (t # us)) @ '']''"
  obtain r where r: "joinComma (map stringifyTask (t # us)) = CHR ''{'' # r"
    using joinComma_Cons by blast
  then have ne: "?r \<noteq> '']''" by simp
  have "length (t # us) \<le> length (joinComma (map stringifyTask (t # us)))"
    by (rule length_joinComma)
  then have "length us < length ?r" by simp
  then have "parseItems (length ?r) ?r = Some (t # us, [])"
    using parseItems_joinComma [of us "length ?r" t "[]"] by simp
  with ne show ?thesis
    by (simp add: JSON_parse_def JSON_stringify_def Cons)
qed

text \<open>
  C9. Saving the tasks of a state and loading them, into any state and whatever else the
  storage holds, succeeds and gives the same tasks: the same identifiers, texts,
  completion flags and pomodoro counts, in the same order.
\<close>

theorem loadTasks_saveTasks:
  "loadTasks (saveTasks s localStorage) s' = Inr (s'\<lparr>tasks := tasks s\<rparr>)"
proof -
  have "JSON_stringify (tasks s) \<noteq> []"
    by (simp add: JSON_stringify_def)
  then show ?thesis
    by (simp add: loadTasks_def saveTasks_def JSON_parse_stringify)
qed

text \<open>
  Two tasks, the second with a double quote and a line feed in its text, saved into the
  empty storage and loaded into the initial state.
\<close>

theorem loadTasks_saveTasks_witness:
  "loadTasks
     (saveTasks
        (initialState\<lparr>tasks :=
           [\<lparr>id_task = 1730000000000, text_task = ''A'', completed = False, pomodoros = 0\<rparr>,
            \<lparr>id_task = 1730000000250, text_task = [CHR ''a'', CHR 0x22, CHR 0x0A],
              completed = True, pomodoros = 12\<rparr>]\<rparr>)
        Map.empty)
     initialState =
   Inr (initialState\<lparr>tasks :=
           [\<lparr>id_task = 1730000000000, text_task = ''A'', completed = False, pomodoros = 0\<rparr>,
            \<lparr>id_task = 1730000000250, text_task = [CHR ''a'', CHR 0x22, CHR 0x0A],
              completed = True, pomodoros = 12\<rparr>]\<rparr>)"
  using loadTasks_saveTasks
    [of "initialState\<lparr>tasks :=
           [\<lparr>id_task = 1730000000000, text_task = ''A'', completed = False, pomodoros = 0\<rparr>,
            \<lparr>id_task = 1730000000250, text_task = [CHR ''a'', CHR 0x22, CHR 0x0A],
              completed = True, pomodoros = 12\<rparr>]\<rparr>" Map.empty initialState]
  by simp

text \<open>The text that is stored for these two tasks.\<close>

lemma digitChar_literals:
  "digitChar 0 = CHR ''0''" "digitChar (Suc 0) = CHR ''1''" "digitChar 2 = CHR ''2''"
  "digitChar 3 = CHR ''3''" "digitChar 4 = CHR ''4''" "digitChar 5 = CHR ''5''"
  "digitChar 6 = CHR ''6''" "digitChar 7 = CHR ''7''" "digitChar 8 = CHR ''8''"
  "digitChar 9 = CHR ''9''"
  by (rule char_eqI, simp add: of_char_digitChar)+

lemma JSON_stringify_example:
  "JSON_stringify
     [\<lparr>id_task = 1730000000000, text_task = ''A'', completed = False, pomodoros = 0\<rparr>,
      \<lparr>id_task = 1730000000250, text_task = [CHR ''a'', CHR 0x22, CHR 0x0A], completed = True,
        pomodoros = 12\<rparr>] =
   ''[{'' @ [CHR 0x22] @ ''id'' @ [CHR 0x22] @ '':1730000000000,''
     @ [CHR 0x22] @ ''text'' @ [CHR 0x22] @ '':'' @ [CHR 0x22] @ ''A'' @ [CHR 0x22] @ '',''
     @ [CHR 0x22] @ ''completed'' @ [CHR 0x22] @ '':false,''
     @ [CHR 0x22] @ ''pomodoros'' @ [CHR 0x22] @ '':0},{''
     @ [CHR 0x22] @ ''id'' @ [CHR 0x22] @ '':1730000000250,''
     @ [CHR 0x22] @ ''text'' @ [CHR 0x22] @ '':'' @ [CHR 0x22, CHR ''a'', CHR 0x5C, CHR 0x22, CHR 0x5C] @ ''n'' @ [CHR 0x22] @ '',''
     @ [CHR 0x22] @ ''completed'' @ [CHR 0x22] @ '':true,''
     @ [CHR 0x22] @ ''pomodoros'' @ [CHR 0x22] @ '':12}]''"
  by (simp add: JSON_stringify_def stringifyTask_def key_literals quoteJSONString_def
      quoteChar_def numberToString_def showNat.simps digitChar_literals)

end
